theory Spec2Isabelle
  imports Complex_Main "HOL-Library.Product_Lexorder" "HOL-Library.Multiset"
    "HOL-Library.Sublist"
begin

section \<open>Data model\<close>

text \<open>
  The dataclass \<open>Restaurant\<close> of \<open>google_maps_scraper.py\<close>. A Python \<open>float\<close> rating is
  modelled by a real number (the finite values, which compare as the numbers they denote);
  \<open>Optional[float]\<close> is \<open>real option\<close>; Python's unbounded \<open>int\<close> is \<open>int\<close>.
\<close>

record restaurant =
  name :: string
  address :: string
  phone :: string
  rating :: "real option"
  review_count :: int
  website :: string
  cuisine :: string
  maps_url :: string

text \<open>The field defaults of the dataclass: \<open>Restaurant()\<close>.\<close>

definition Restaurant :: restaurant where
  "Restaurant =
     \<lparr>name = ''N/A'', address = ''N/A'', phone = ''N/A'', rating = None, review_count = 0,
      website = ''N/A'', cuisine = ''N/A'', maps_url = ''N/A''\<rparr>"

text \<open>The configuration constants the claims depend on.\<close>

definition MAX_RESULTS :: int where
  "MAX_RESULTS = 60"

definition OUTPUT_FILE :: string where
  "OUTPUT_FILE = ''nyc_restaurants.xlsx''"

section \<open>Scraping helpers\<close>

text \<open>
  \<open>parse_rating\<close>: \<open>float(raw.replace(",", "."))\<close>, \<open>None\<close> on \<open>ValueError\<close>. Python's
  built-in \<open>float\<close> is a parameter \<open>py_float\<close> (\<open>None\<close> where it raises \<open>ValueError\<close>).
\<close>

definition replace_comma :: "string \<Rightarrow> string" where
  "replace_comma raw = map (\<lambda>c. if c = CHR '','' then CHR ''.'' else c) raw"

definition parse_rating :: "(string \<Rightarrow> real option) \<Rightarrow> string \<Rightarrow> real option" where
  "parse_rating py_float raw = py_float (replace_comma raw)"

text \<open>
  \<open>parse_review_count\<close>: \<open>digits = re.sub(r"[^\d]", "", raw)\<close> keeps the decimal digits in
  order; \<open>int(digits) if digits else 0\<close>. Strings are byte strings here, so the digits are
  the ASCII ones. \<open>int\<close> of a digit string reads it left to right in base ten.
\<close>

definition is_digit :: "char \<Rightarrow> bool" where
  "is_digit c = (48 \<le> (of_char c :: nat) \<and> (of_char c :: nat) \<le> 57)"

definition digit_val :: "char \<Rightarrow> int" where
  "digit_val c = int (of_char c) - 48"

definition py_int :: "string \<Rightarrow> int" where
  "py_int digits = foldl (\<lambda>acc c. 10 * acc + digit_val c) 0 digits"

definition parse_review_count :: "string \<Rightarrow> int" where
  "parse_review_count raw =
     (let digits = filter is_digit raw in if digits \<noteq> [] then py_int digits else 0)"

text \<open>
  \<open>str.strip()\<close> removes leading and trailing whitespace; on byte strings these are the
  ASCII characters for which \<open>str.isspace\<close> holds.
\<close>

definition is_space :: "char \<Rightarrow> bool" where
  "is_space c = ((of_char c :: nat) \<in> {9, 10, 11, 12, 13, 28, 29, 30, 31, 32})"

definition strip :: "string \<Rightarrow> string" where
  "strip s = rev (dropWhile is_space (rev (dropWhile is_space s)))"

section \<open>The scroll loop of \<open>scrape_google_maps\<close>\<close>

text \<open>
  The page is the environment of the loop: \<open>counts i\<close> is \<open>len(cards)\<close> as measured in
  iteration \<open>i\<close> (counted from 0). The loop state is \<open>last_count\<close> and \<open>stall_counter\<close>;
  \<open>results\<close> is the (still empty) result list that the loop condition reads and the body
  never changes. The loop may run forever, so it is a partial function: \<open>None\<close> is
  non-termination, \<open>Some\<close> the state at loop exit together with the number of iterations
  performed.
  \<^verbatim>\<open>
    last_count = 0
    stall_counter = 0
    while len(results) < max_results and stall_counter < 5:
        cards = driver.find_elements(...)
        current_count = len(cards)
        ...
        if current_count == last_count:
            stall_counter += 1
        else:
            stall_counter = 0
            last_count = current_count
  \<close>
\<close>

record scroll_exit =
  iterations :: nat
  final_count :: nat
  final_stall :: nat

partial_function (option) scroll_loop ::
  "int \<Rightarrow> restaurant list \<Rightarrow> (nat \<Rightarrow> nat) \<Rightarrow> nat \<Rightarrow> nat \<Rightarrow> nat \<Rightarrow> scroll_exit option" where
  "scroll_loop max_results results counts i last_count stall_counter =
     (if int (length results) < max_results \<and> stall_counter < 5 then
        (if counts i = last_count
         then scroll_loop max_results results counts (i + 1) last_count (stall_counter + 1)
         else scroll_loop max_results results counts (i + 1) (counts i) 0)
      else Some \<lparr>iterations = i, final_count = last_count, final_stall = stall_counter\<rparr>)"

text \<open>
  Page behaviours used in the examples: a feed that reports the measurements \<open>ms\<close> and
  then \<open>d\<close> cards for ever, and a feed that shows one more card at every measurement.
\<close>

definition feed_of :: "nat list \<Rightarrow> nat \<Rightarrow> nat \<Rightarrow> nat" where
  "feed_of ms d i = (if i < length ms then ms ! i else d)"

definition growing_feed :: "nat \<Rightarrow> nat \<Rightarrow> nat" where
  "growing_feed c i = c + i"

section \<open>Collecting the place URLs\<close>

text \<open>
  \<open>a.get_attribute("href")\<close> on an anchor either raises
  \<open>StaleElementReferenceException\<close> (the loop continues) or returns \<open>None\<close> or a string.
  \<^verbatim>\<open>
    for a in all_anchors:
        try:
            href = a.get_attribute("href")
            if href and href not in seen:
                seen.add(href)
                place_urls.append(href)
        except StaleElementReferenceException:
            continue
  \<close>
\<close>

datatype href_read = StaleAnchor | Href "string option"

fun collect_urls :: "href_read list \<Rightarrow> string set \<Rightarrow> string list \<Rightarrow> string list" where
  "collect_urls [] seen place_urls = place_urls"
| "collect_urls (StaleAnchor # as) seen place_urls = collect_urls as seen place_urls"
| "collect_urls (Href None # as) seen place_urls = collect_urls as seen place_urls"
| "collect_urls (Href (Some href) # as) seen place_urls =
     (if href \<noteq> [] \<and> href \<notin> seen
      then collect_urls as (insert href seen) (place_urls @ [href])
      else collect_urls as seen place_urls)"

text \<open>
  The slice \<open>xs[:n]\<close>: the first \<open>n\<close> elements for \<open>n \<ge> 0\<close>; for a negative \<open>n\<close> Python
  drops the last \<open>-n\<close> elements.
\<close>

definition slice_to :: "int \<Rightarrow> 'a list \<Rightarrow> 'a list" where
  "slice_to n xs = (if 0 \<le> n then take (nat n) xs else take (length xs - nat (- n)) xs)"

definition collect_candidates :: "int \<Rightarrow> href_read list \<Rightarrow> string list" where
  "collect_candidates max_results all_anchors = slice_to max_results (collect_urls all_anchors {} [])"

text \<open>
  Following the spec's words: the distinct hrefs in the order in which each is first seen.
\<close>

fun first_seen :: "'a list \<Rightarrow> 'a list" where
  "first_seen [] = []"
| "first_seen (x # xs) = x # first_seen (removeAll x xs)"

text \<open>The hrefs that pass the test \<open>if href\<close>, in anchor order.\<close>

fun rendered_hrefs :: "href_read list \<Rightarrow> string list" where
  "rendered_hrefs [] = []"
| "rendered_hrefs (Href (Some href) # as) =
     (if href \<noteq> [] then href # rendered_hrefs as else rendered_hrefs as)"
| "rendered_hrefs (_ # as) = rendered_hrefs as"

section \<open>The detail crawler\<close>

text \<open>
  Exceptions are values. The first three are the Selenium exceptions the code names in
  its \<open>except\<close> clauses; \<open>WebDriverException\<close> stands for any other driver error and
  \<open>UnboundLocalError\<close> is raised by reading \<open>cards\<close> when the scroll loop body never ran.
\<close>

datatype exn =
    NoSuchElementException
  | TimeoutException
  | StaleElementReferenceException
  | WebDriverException
  | UnboundLocalError

text \<open>
  What the browser does on one place page. \<open>navigation\<close> is \<open>driver.get(place_url)\<close>
  (\<open>None\<close>: it returned). Each element field is the outcome of the lookup
  (\<open>wait.until\<close> for the name, \<open>driver.find_element\<close> for the others): \<open>Inl e\<close> when the
  lookup raises \<open>e\<close>, otherwise \<open>Inr\<close> of the outcome of reading the element's text (for
  the review count: its \<open>aria-label\<close> attribute), which again raises or returns a string.
\<close>

record place_page =
  navigation :: "exn option"
  name_el :: "exn + (exn + string)"
  rating_el :: "exn + (exn + string)"
  reviews_el :: "exn + (exn + string)"
  cuisine_el :: "exn + (exn + string)"
  addr_el :: "exn + (exn + string)"
  phone_el :: "exn + (exn + string)"
  web_el :: "exn + (exn + string)"

text \<open>Sequencing of statements that may raise.\<close>

definition and_then :: "exn + 'a \<Rightarrow> ('a \<Rightarrow> exn + 'b) \<Rightarrow> exn + 'b" where
  "and_then m k = (case m of Inl e \<Rightarrow> Inl e | Inr v \<Rightarrow> k v)"

text \<open>\<open>el = <lookup>; value = g(el.text)\<close>.\<close>

definition read_el :: "exn + (exn + string) \<Rightarrow> (string \<Rightarrow> 'a) \<Rightarrow> exn + 'a" where
  "read_el el g = and_then el (\<lambda>text. and_then text (\<lambda>s. Inr (g s)))"

text \<open>\<open>try: <body>  except <caught>: field = <dflt>\<close>; any other exception propagates.\<close>

definition except :: "exn \<Rightarrow> 'a \<Rightarrow> exn + 'a \<Rightarrow> exn + 'a" where
  "except caught dflt body =
     (case body of Inl e \<Rightarrow> if e = caught then Inr dflt else Inl e | Inr v \<Rightarrow> Inr v)"

text \<open>
  The body of the outer \<open>try\<close> up to \<open>results.append(restaurant)\<close>: navigation, then the
  seven fields in the order of the source, each in its own inner \<open>try\<close>.
\<close>

definition build_record ::
  "(string \<Rightarrow> real option) \<Rightarrow> string \<Rightarrow> place_page \<Rightarrow> exn + restaurant" where
  "build_record py_float place_url pg =
     (case navigation pg of
        Some e \<Rightarrow> Inl e
      | None \<Rightarrow>
          and_then (except TimeoutException ''N/A'' (read_el (name_el pg) strip)) (\<lambda>nm.
          and_then (except NoSuchElementException None
                      (read_el (rating_el pg) (parse_rating py_float))) (\<lambda>rt.
          and_then (except NoSuchElementException 0
                      (read_el (reviews_el pg) parse_review_count)) (\<lambda>rc.
          and_then (except NoSuchElementException ''N/A'' (read_el (cuisine_el pg) strip)) (\<lambda>cu.
          and_then (except NoSuchElementException ''N/A'' (read_el (addr_el pg) strip)) (\<lambda>ad.
          and_then (except NoSuchElementException ''N/A'' (read_el (phone_el pg) strip)) (\<lambda>ph.
          and_then (except NoSuchElementException ''N/A'' (read_el (web_el pg) strip)) (\<lambda>wb.
          Inr (Restaurant\<lparr>maps_url := place_url, name := nm, rating := rt,
                 review_count := rc, cuisine := cu, address := ad, phone := ph,
                 website := wb\<rparr>)))))))))"

text \<open>
  One iteration of the \<open>for\<close> loop over \<open>place_urls\<close>. \<open>Inr (Some r)\<close>: \<open>r\<close> was appended;
  \<open>Inr None\<close>: the outer \<open>except (StaleElementReferenceException, TimeoutException)\<close>
  skipped the candidate; \<open>Inl e\<close>: \<open>e\<close> leaves the loop and the function. After the append
  the log line reads \<open>len(cards)\<close>, which is unbound when the scroll loop body never ran.
\<close>

definition process_place ::
  "(string \<Rightarrow> real option) \<Rightarrow> bool \<Rightarrow> string \<Rightarrow> place_page \<Rightarrow> exn + restaurant option" where
  "process_place py_float cards_bound place_url pg =
     (case build_record py_float place_url pg of
        Inr r \<Rightarrow> if cards_bound then Inr (Some r) else Inl UnboundLocalError
      | Inl e \<Rightarrow>
          if e = StaleElementReferenceException \<or> e = TimeoutException then Inr None
          else Inl e)"

fun extract_all ::
  "(string \<Rightarrow> real option) \<Rightarrow> bool \<Rightarrow> (string \<Rightarrow> place_page) \<Rightarrow> string list \<Rightarrow>
     restaurant list \<Rightarrow> exn + restaurant list" where
  "extract_all py_float cards_bound pages [] results = Inr results"
| "extract_all py_float cards_bound pages (place_url # rest) results =
     (case process_place py_float cards_bound place_url (pages place_url) of
        Inl e \<Rightarrow> Inl e
      | Inr None \<Rightarrow> extract_all py_float cards_bound pages rest results
      | Inr (Some r) \<Rightarrow> extract_all py_float cards_bound pages rest (results @ [r]))"

section \<open>The whole scrape\<close>

text \<open>
  One browser session as the scraper sees it: whether a search box and the results panel
  are found, the card counts of the scroll loop, the anchors present after it, and the
  place pages by URL.
\<close>

record session =
  search_box_found :: bool
  panel_found :: bool
  card_counts :: "nat \<Rightarrow> nat"
  all_anchors :: "href_read list"
  place_pages :: "string \<Rightarrow> place_page"

text \<open>
  \<open>scrape_google_maps\<close>: the outer \<open>None\<close> is a scroll loop that never ends, \<open>Some (Inl e)\<close>
  an exception that leaves the function, \<open>Some (Inr results)\<close> the returned list.
\<close>

definition scrape_google_maps ::
  "(string \<Rightarrow> real option) \<Rightarrow> int \<Rightarrow> session \<Rightarrow> (exn + restaurant list) option" where
  "scrape_google_maps py_float max_results ses =
     (if \<not> search_box_found ses then Some (Inr [])
      else if \<not> panel_found ses then Some (Inr [])
      else
        (case scroll_loop max_results [] (card_counts ses) 0 0 0 of
           None \<Rightarrow> None
         | Some ex \<Rightarrow>
             Some (extract_all py_float (0 < iterations ex) (place_pages ses)
                     (collect_candidates max_results (all_anchors ses)) [])))"

section \<open>Sorting\<close>

text \<open>
  Python truthiness of an \<open>Optional[float]\<close>: \<open>None\<close> and \<open>0.0\<close> are false. It decides
  \<open>r.rating or 0\<close> in the sort key and \<open>if r.rating\<close> in the summary row.
\<close>

definition truthy :: "real option \<Rightarrow> bool" where
  "truthy x = (case x of None \<Rightarrow> False | Some v \<Rightarrow> v \<noteq> 0)"

definition rating_or_0 :: "restaurant \<Rightarrow> real" where
  "rating_or_0 r = (if truthy (rating r) then the (rating r) else 0)"

text \<open>The key \<open>(r.rating is not None, r.rating or 0, r.review_count)\<close>; tuples compare
  lexicographically.\<close>

definition sort_key_of :: "restaurant \<Rightarrow> bool \<times> real \<times> int" where
  "sort_key_of r = (rating r \<noteq> None, rating_or_0 r, review_count r)"

text \<open>
  \<open>sorted(data, key=..., reverse=True)\<close>: a stable sort; with \<open>reverse=True\<close> the list is
  reversed, sorted stably in ascending key order, and reversed again, so that elements
  with equal keys keep their original order.
\<close>

definition sort_results :: "restaurant list \<Rightarrow> restaurant list" where
  "sort_results data = rev (sort_key sort_key_of (rev data))"

section \<open>The report and the entry point\<close>

datatype cell = Num real | Text string

record sheet_row =
  col_no :: int
  col_name :: string
  col_cuisine :: string
  col_rating :: cell
  col_reviews :: int
  col_address :: string
  col_phone :: string
  col_website :: string
  col_url :: string

text \<open>
  The workbook without its styling: the data rows, and the summary row's total and
  average. The source writes \<open>round(avg_rating, 2)\<close>; the rounding to two decimals is not
  modelled, \<open>summary_avg\<close> is \<open>avg_rating\<close> itself.
\<close>

record workbook =
  data_rows :: "sheet_row list"
  summary_total :: int
  summary_avg :: real

definition row_data :: "nat \<Rightarrow> restaurant \<Rightarrow> sheet_row" where
  "row_data row_idx r =
     \<lparr>col_no = int row_idx - 1, col_name = name r, col_cuisine = cuisine r,
      col_rating = (case rating r of Some x \<Rightarrow> Num x | None \<Rightarrow> Text ''N/A''),
      col_reviews = review_count r, col_address = address r, col_phone = phone r,
      col_website = website r, col_url = maps_url r\<rparr>"

text \<open>
  \<open>sum(r.rating for r in data if r.rating) / max(1, sum(1 for r in data if r.rating))\<close>.
\<close>

definition avg_rating :: "restaurant list \<Rightarrow> real" where
  "avg_rating data =
     sum_list (map (\<lambda>r. the (rating r)) (filter (\<lambda>r. truthy (rating r)) data))
       / real_of_int (max 1 (sum_list (map (\<lambda>r. 1) (filter (\<lambda>r. truthy (rating r)) data))))"

definition export_to_excel :: "restaurant list \<Rightarrow> workbook" where
  "export_to_excel data =
     \<lparr>data_rows = map (\<lambda>(row_idx, r). row_data row_idx r) (enumerate 2 data),
      summary_total = int (length data),
      summary_avg = avg_rating data\<rparr>"

text \<open>
  \<open>main\<close> on a file system (file name to workbook), given the outcome of the scrape.
  \<^verbatim>\<open>
    raw_data = scrape_google_maps(query=SEARCH_QUERY, max_results=MAX_RESULTS)
    if not raw_data:
        log.error(...)
        return
    sorted_data = sort_results(raw_data)
    export_to_excel(sorted_data, OUTPUT_FILE)
  \<close>
\<close>

definition main ::
  "(string \<Rightarrow> real option) \<Rightarrow> session \<Rightarrow> (string \<rightharpoonup> workbook) \<Rightarrow>
     (exn + (string \<rightharpoonup> workbook)) option" where
  "main py_float ses files =
     (case scrape_google_maps py_float MAX_RESULTS ses of
        None \<Rightarrow> None
      | Some (Inl e) \<Rightarrow> Some (Inl e)
      | Some (Inr raw_data) \<Rightarrow>
          if raw_data = [] then Some (Inr files)
          else Some (Inr (files(OUTPUT_FILE \<mapsto> export_to_excel (sort_results raw_data)))))"

section \<open>Specification-side definitions\<close>

text \<open>
  A lookup outcome that is an absence of the kind the field's inner handler catches, or
  an element whose text can be read.
\<close>

definition absent_or_text :: "exn \<Rightarrow> exn + (exn + string) \<Rightarrow> bool" where
  "absent_or_text caught el =
     (case el of Inl e \<Rightarrow> e = caught | Inr (Inl e) \<Rightarrow> False | Inr (Inr t) \<Rightarrow> True)"

text \<open>
  Following the spec's words: a field is the parsed text of its own element when that
  is there, and its declared default otherwise.
\<close>

definition field_of :: "'a \<Rightarrow> (string \<Rightarrow> 'a) \<Rightarrow> exn + (exn + string) \<Rightarrow> 'a" where
  "field_of dflt g el = (case el of Inr (Inr t) \<Rightarrow> g t | _ \<Rightarrow> dflt)"

definition expected_record ::
  "(string \<Rightarrow> real option) \<Rightarrow> string \<Rightarrow> place_page \<Rightarrow> restaurant" where
  "expected_record py_float place_url pg =
     \<lparr>name = field_of ''N/A'' strip (name_el pg),
      address = field_of ''N/A'' strip (addr_el pg),
      phone = field_of ''N/A'' strip (phone_el pg),
      rating = field_of None (parse_rating py_float) (rating_el pg),
      review_count = field_of 0 parse_review_count (reviews_el pg),
      website = field_of ''N/A'' strip (web_el pg),
      cuisine = field_of ''N/A'' strip (cuisine_el pg),
      maps_url = place_url\<rparr>"

text \<open>
  A page that loads and on which every field is either absent or readable: nothing but
  absence and content (well-formed or not) varies.
\<close>

definition benign_page :: "place_page \<Rightarrow> bool" where
  "benign_page pg =
     (navigation pg = None
      \<and> absent_or_text TimeoutException (name_el pg)
      \<and> absent_or_text NoSuchElementException (rating_el pg)
      \<and> absent_or_text NoSuchElementException (reviews_el pg)
      \<and> absent_or_text NoSuchElementException (cuisine_el pg)
      \<and> absent_or_text NoSuchElementException (addr_el pg)
      \<and> absent_or_text NoSuchElementException (phone_el pg)
      \<and> absent_or_text NoSuchElementException (web_el pg))"

text \<open>
  The per-item failures: the two exceptions of the outer \<open>except\<close> clause, leaving the
  body of the outer \<open>try\<close>. An item is fine when the body reaches the append.
\<close>

definition item_failure :: "(string \<Rightarrow> real option) \<Rightarrow> string \<Rightarrow> place_page \<Rightarrow> bool" where
  "item_failure py_float place_url pg =
     (build_record py_float place_url pg = Inl TimeoutException
      \<or> build_record py_float place_url pg = Inl StaleElementReferenceException)"

definition item_ok :: "(string \<Rightarrow> real option) \<Rightarrow> string \<Rightarrow> place_page \<Rightarrow> bool" where
  "item_ok py_float place_url pg =
     (case build_record py_float place_url pg of Inr r \<Rightarrow> True | Inl e \<Rightarrow> False)"

text \<open>
  The records of the candidates that build one, each from its own page alone, in
  candidate order.
\<close>

definition records_of ::
  "(string \<Rightarrow> real option) \<Rightarrow> (string \<Rightarrow> place_page) \<Rightarrow> string list \<Rightarrow> restaurant list" where
  "records_of py_float pages place_urls =
     concat (map (\<lambda>u. case build_record py_float u (pages u) of Inr r \<Rightarrow> [r] | Inl e \<Rightarrow> [])
       place_urls)"

text \<open>
  Following the claim's words: the sum of the ratings of the records that have one,
  over their number, with the denominator at least 1.
\<close>

definition mean_of_rated :: "restaurant list \<Rightarrow> real" where
  "mean_of_rated data =
     sum_list (map (\<lambda>r. the (rating r)) (filter (\<lambda>r. rating r \<noteq> None) data))
       / real_of_int (max 1 (int (length (filter (\<lambda>r. rating r \<noteq> None) data))))"

section \<open>Example inputs\<close>

text \<open>A stand-in for \<open>float\<close> that reads two rating texts and rejects everything else.\<close>

definition ex_float :: "string \<Rightarrow> real option" where
  "ex_float s = (if s = ''4.5'' then Some (9 / 2) else if s = ''4.0'' then Some 4 else None)"

text \<open>A page on which the name heading never appears and no other element exists.\<close>

definition bare_page :: place_page where
  "bare_page =
     \<lparr>navigation = None, name_el = Inl TimeoutException,
      rating_el = Inl NoSuchElementException, reviews_el = Inl NoSuchElementException,
      cuisine_el = Inl NoSuchElementException, addr_el = Inl NoSuchElementException,
      phone_el = Inl NoSuchElementException, web_el = Inl NoSuchElementException\<rparr>"

definition bare_pages :: "string \<Rightarrow> place_page" where
  "bare_pages u = bare_page"

text \<open>A page with everything but a phone number, and the same page failing to load.\<close>

definition full_page :: place_page where
  "full_page =
     \<lparr>navigation = None, name_el = Inr (Inr '' Joes Pizza ''),
      rating_el = Inr (Inr ''4,5''), reviews_el = Inr (Inr ''1,234 reviews''),
      cuisine_el = Inr (Inr ''Pizza''), addr_el = Inr (Inr ''7 Carmine St''),
      phone_el = Inl NoSuchElementException, web_el = Inr (Inr ''joespizza.example'')\<rparr>"

definition nav_timeout_page :: place_page where
  "nav_timeout_page = full_page\<lparr>navigation := Some TimeoutException\<rparr>"

text \<open>
  The full page without its name heading, and that page with a rating element that has
  gone stale when its text is read.
\<close>

definition nameless_page :: place_page where
  "nameless_page = full_page\<lparr>name_el := Inl TimeoutException\<rparr>"

definition stale_rating_page :: place_page where
  "stale_rating_page = nameless_page\<lparr>rating_el := Inr (Inl StaleElementReferenceException)\<rparr>"

text \<open>Ten candidates; the navigation to the fourth times out.\<close>

definition ten_urls :: "string list" where
  "ten_urls = [''u1'', ''u2'', ''u3'', ''u4'', ''u5'', ''u6'', ''u7'', ''u8'', ''u9'', ''u10'']"

definition ten_pages :: "string \<Rightarrow> place_page" where
  "ten_pages u = (if u = ''u4'' then nav_timeout_page else full_page)"

text \<open>Restaurants for the ranking examples.\<close>

definition ex_a :: restaurant where
  "ex_a = Restaurant\<lparr>name := ''A'', rating := Some (9 / 2), review_count := 100\<rparr>"

definition ex_b :: restaurant where
  "ex_b = Restaurant\<lparr>name := ''B'', rating := None, review_count := 5000\<rparr>"

definition ex_c :: restaurant where
  "ex_c = Restaurant\<lparr>name := ''C'', rating := Some (9 / 2), review_count := 900\<rparr>"

definition ex_d :: restaurant where
  "ex_d = Restaurant\<lparr>name := ''D'', rating := Some (9 / 2), review_count := 100\<rparr>"

definition ex_e :: restaurant where
  "ex_e = Restaurant\<lparr>name := ''E'', rating := Some 4, review_count := 7000\<rparr>"

text \<open>Anchors with a stale one, one without href, an empty href and a repeated href.\<close>

definition ex_anchors :: "href_read list" where
  "ex_anchors =
     [Href (Some ''a''), StaleAnchor, Href None, Href (Some []), Href (Some ''a''),
      Href (Some ''b''), Href (Some ''c'')]"

text \<open>A session in which no search box is found, and one with two places.\<close>

definition no_box_session :: session where
  "no_box_session =
     \<lparr>search_box_found = False, panel_found = False, card_counts = feed_of [] 0,
      all_anchors = [], place_pages = bare_pages\<rparr>"

definition two_place_session :: session where
  "two_place_session =
     \<lparr>search_box_found = True, panel_found = True, card_counts = feed_of [] 2,
      all_anchors = [Href (Some ''u1''), Href (Some ''u4''), Href (Some ''u2'')],
      place_pages = ten_pages\<rparr>"

section \<open>Properties of the helpers\<close>

lemma py_int_snoc: "py_int (ds @ [d]) = 10 * py_int ds + digit_val d"
  by (simp add: py_int_def)

lemma py_int_positional:
  "py_int ds = (\<Sum>i<length ds. digit_val (ds ! i) * 10 ^ (length ds - 1 - i))"
proof (induction ds rule: rev_induct)
  case Nil
  show ?case by (simp add: py_int_def)
next
  case (snoc d ds)
  have "(\<Sum>i<length ds. digit_val ((ds @ [d]) ! i) * 10 ^ (length (ds @ [d]) - 1 - i))
      = (\<Sum>i<length ds. 10 * (digit_val (ds ! i) * 10 ^ (length ds - 1 - i)))"
  proof (rule sum.cong)
    fix i assume "i \<in> {..<length ds}"
    then have i: "i < length ds" by simp
    then have "length ds - i = Suc (length ds - 1 - i)" by arith
    with i show "digit_val ((ds @ [d]) ! i) * 10 ^ (length (ds @ [d]) - 1 - i)
        = 10 * (digit_val (ds ! i) * 10 ^ (length ds - 1 - i))"
      by (simp add: nth_append)
  qed simp
  then show ?case
    by (simp add: py_int_snoc snoc.IH sum_distrib_left)
qed

lemma digit_val_range: "is_digit c \<Longrightarrow> 0 \<le> digit_val c \<and> digit_val c \<le> 9"
  by (auto simp: is_digit_def digit_val_def)

text \<open>
  C9. \<open>parse_review_count\<close> is digit-only extraction: with \<open>ds\<close> the digit characters of
  the input in order, the result is 0 when there are none and otherwise the number that
  \<open>ds\<close> denotes in base ten (digit \<open>i\<close> weighs \<open>10 ^ (length ds - 1 - i)\<close>). The digit
  characters are \<open>0\<close> to \<open>9\<close> with the values 0 to 9; \<open>"(1,234)"\<close> gives 1234 and
  \<open>"no reviews"\<close> gives 0.
\<close>

theorem parse_review_count_digits:
  "parse_review_count raw =
     (if filter is_digit raw = [] then 0
      else (\<Sum>i<length (filter is_digit raw).
              digit_val (filter is_digit raw ! i) * 10 ^ (length (filter is_digit raw) - 1 - i)))
   \<and> filter is_digit ''/0123456789:'' = ''0123456789''
   \<and> map digit_val ''0123456789'' = [0, 1, 2, 3, 4, 5, 6, 7, 8, 9]
   \<and> parse_review_count ''(1,234)'' = 1234
   \<and> parse_review_count ''no reviews'' = 0"
proof -
  have "parse_review_count raw =
     (if filter is_digit raw = [] then 0
      else (\<Sum>i<length (filter is_digit raw).
              digit_val (filter is_digit raw ! i) * 10 ^ (length (filter is_digit raw) - 1 - i)))"
    using py_int_positional [of "filter is_digit raw"]
    by (simp add: parse_review_count_def Let_def)
  moreover have "filter is_digit ''/0123456789:'' = ''0123456789''"
    by (simp add: is_digit_def)
  moreover have "map digit_val ''0123456789'' = [0, 1, 2, 3, 4, 5, 6, 7, 8, 9]"
    by (simp add: digit_val_def)
  moreover have "parse_review_count ''(1,234)'' = 1234"
    by (simp add: parse_review_count_def py_int_def is_digit_def digit_val_def)
  moreover have "parse_review_count ''no reviews'' = 0"
    by (simp add: parse_review_count_def py_int_def is_digit_def digit_val_def)
  ultimately show ?thesis by blast
qed

section \<open>Properties of the scroll loop\<close>



lemma scroll_loop_changed:
  "int (length results) < max_results \<Longrightarrow> stall < 5 \<Longrightarrow> counts i \<noteq> base \<Longrightarrow>
   scroll_loop max_results results counts i base stall =
     scroll_loop max_results results counts (Suc i) (counts i) 0"
  by (subst scroll_loop.simps) simp



text \<open>
  While every measurement differs from the one before, the loop never exits: whenever it
  returns, the current measurement did not differ from the baseline.
\<close>

lemma scroll_loop_Some_settles:
  assumes "scroll_loop m r c i l s = Some y"
  shows "\<not> (int (length r) < m \<and> (\<forall>j. c (Suc j) \<noteq> c j) \<and> c i \<noteq> l \<and> s < 5)"
  using assms
proof (induction m r c i l s y rule: scroll_loop.raw_induct)
  case (1 f m r c i l s y)
  show ?case
  proof (rule notI)
    assume inv: "int (length r) < m \<and> (\<forall>j. c (Suc j) \<noteq> c j) \<and> c i \<noteq> l \<and> s < 5"
    with 1(2) have "f m r c (i + 1) (c i) 0 = Some y" by simp
    moreover have "scroll_loop m r c i l s = scroll_loop m r c (Suc i) (c i) 0"
      using inv by (intro scroll_loop_changed) simp_all
    with 1(3) have "scroll_loop m r c (i + 1) (c i) 0 = Some y" by simp
    ultimately have
      "\<not> (int (length r) < m \<and> (\<forall>j. c (Suc j) \<noteq> c j) \<and> c (i + 1) \<noteq> c i \<and> (0::nat) < 5)"
      by (rule 1(1))
    with inv show False by simp
  qed
qed (rule assms)

lemma scroll_loop_diverges:
  assumes "int (length results) < max_results"
    and "\<forall>j. counts (Suc j) \<noteq> counts j" and "counts i \<noteq> base" and "stall < 5"
  shows "scroll_loop max_results results counts i base stall = None"
proof (cases "scroll_loop max_results results counts i base stall")
  case None
  then show ?thesis .
next
  case (Some y)
  from scroll_loop_Some_settles[OF this] assms show ?thesis by simp
qed

text \<open>
  C1 (the code departs from the claim). The loop condition reads \<open>len(results)\<close>, which is
  0 throughout the loop, and never the measured card count. With \<open>max_results = 3\<close> and a
  feed that shows 10 cards at every measurement, the target is reached at the first
  measurement, yet the loop scrolls six times and leaves only because the stall counter
  reaches 5; on a feed that shows 10, 11, 12, ... cards the loop never ends.
\<close>

theorem scroll_loop_ignores_target:
  "scroll_loop 3 [] (feed_of [] 10) 0 0 0 =
     Some \<lparr>iterations = 6, final_count = 10, final_stall = 5\<rparr>
   \<and> scroll_loop 3 [] (growing_feed 10) 0 0 0 = None"
proof
  show "scroll_loop 3 [] (feed_of [] 10) 0 0 0 =
     Some \<lparr>iterations = 6, final_count = 10, final_stall = 5\<rparr>"
    by (simp add: scroll_loop.simps feed_of_def)
  show "scroll_loop 3 [] (growing_feed 10) 0 0 0 = None"
    by (rule scroll_loop_diverges) (simp_all add: growing_feed_def)
qed




section \<open>Properties of the candidate collector\<close>

lemma distinct_first_seen: "distinct (first_seen xs)"
  and set_first_seen: "set (first_seen xs) = set xs"
  by (induction xs rule: first_seen.induct) auto

lemma removeAll_filter_unseen:
  "removeAll x (filter (\<lambda>h. h \<notin> seen) xs) = filter (\<lambda>h. h \<notin> insert x seen) xs"
  by (induction xs) auto

text \<open>The loop with its \<open>seen\<close> set computes the first-seen hrefs not seen before.\<close>

lemma collect_urls_first_seen:
  "collect_urls as seen place_urls =
     place_urls @ first_seen (filter (\<lambda>h. h \<notin> seen) (rendered_hrefs as))"
proof (induction as seen place_urls rule: collect_urls.induct)
  case (4 href as seen place_urls)
  then show ?case by (simp add: removeAll_filter_unseen)
qed simp_all

text \<open>
  C5. For every list of anchors the candidates are pairwise distinct and form a prefix
  of the first-seen sequence of the rendered hrefs; for every result count
  \<open>max_results\<close> (a count is not negative) they are that sequence truncated to
  \<open>max_results\<close>, deduplication first and truncation second, so there are at most
  \<open>max_results\<close> of them.
\<close>

theorem collect_candidates_dedup:
  "distinct (collect_candidates max_results anchors)
   \<and> prefix (collect_candidates max_results anchors) (first_seen (rendered_hrefs anchors))
   \<and> (0 \<le> max_results \<longrightarrow>
        collect_candidates max_results anchors =
          take (nat max_results) (first_seen (rendered_hrefs anchors))
        \<and> int (length (collect_candidates max_results anchors)) \<le> max_results)"
  by (auto simp: collect_candidates_def slice_to_def collect_urls_first_seen
      distinct_first_seen take_is_prefix)

theorem collect_candidates_dedup_witness:
  "(0::int) \<le> 2
   \<and> collect_candidates 2 ex_anchors = [''a'', ''b'']
   \<and> take (nat 2) (first_seen (rendered_hrefs ex_anchors)) = [''a'', ''b'']
   \<and> first_seen (rendered_hrefs ex_anchors) = [''a'', ''b'', ''c'']
   \<and> int (length (collect_candidates 2 ex_anchors)) \<le> 2"
  using collect_candidates_dedup [of 2 ex_anchors]
  by (simp add: ex_anchors_def)

section \<open>Properties of the ranking\<close>

lemma sort_key_of_le:
  "sort_key_of b \<le> sort_key_of a \<longleftrightarrow>
     (rating b = None \<and> rating a \<noteq> None)
   \<or> ((rating b = None \<longleftrightarrow> rating a = None) \<and>
       (rating_or_0 b < rating_or_0 a \<or>
        rating_or_0 b = rating_or_0 a \<and> review_count b \<le> review_count a))"
  by (auto simp: sort_key_of_def)

lemma rating_or_0_Some: "rating r = Some x \<Longrightarrow> rating_or_0 r = x"
  by (simp add: rating_or_0_def truthy_def)

lemma sorted_sort_results:
  "sorted_wrt (\<lambda>a b. sort_key_of b \<le> sort_key_of a) (sort_results data)"
proof -
  have "sorted (map sort_key_of (sort_key sort_key_of (rev data)))"
    by (rule sorted_sort_key)
  then have "sorted_wrt (\<lambda>a b. sort_key_of a \<le> sort_key_of b) (sort_key sort_key_of (rev data))"
    by (simp add: sorted_map)
  then show ?thesis
    by (simp add: sort_results_def sorted_wrt_rev)
qed

lemma stable_sort_results:
  "filter (\<lambda>r. sort_key_of r = k) (sort_results data) = filter (\<lambda>r. sort_key_of r = k) data"
proof -
  have "filter (\<lambda>r. sort_key_of r = k) (sort_results data) =
      rev (filter (\<lambda>r. sort_key_of r = k) (sort_key sort_key_of (rev data)))"
    by (simp add: sort_results_def rev_filter)
  also have "\<dots> = rev (filter (\<lambda>r. sort_key_of r = k) (rev data))"
    by (simp only: sort_key_stable)
  also have "\<dots> = filter (\<lambda>r. sort_key_of r = k) data"
    by (simp add: rev_filter)
  finally show ?thesis .
qed

text \<open>
  C4. \<open>sort_results\<close> rearranges the catalog (same records, same multiplicities) into
  descending order of the key \<open>(rating is not None, rating or 0, review_count)\<close>: no
  record without a rating comes before a record with one, whatever the review counts;
  of two rated records the earlier has the higher rating or, at equal ratings, a review
  count at least as high; and the records with any one key are in their input order.
\<close>

theorem sort_results_ranks:
  "mset (sort_results data) = mset data
   \<and> sorted_wrt (\<lambda>a b. sort_key_of b \<le> sort_key_of a) (sort_results data)
   \<and> sorted_wrt (\<lambda>a b. rating b \<noteq> None \<longrightarrow> rating a \<noteq> None) (sort_results data)
   \<and> sorted_wrt (\<lambda>a b. rating a \<noteq> None \<and> rating b \<noteq> None \<longrightarrow>
        the (rating b) < the (rating a)
        \<or> the (rating b) = the (rating a) \<and> review_count b \<le> review_count a)
       (sort_results data)
   \<and> (\<forall>k. filter (\<lambda>r. sort_key_of r = k) (sort_results data) =
            filter (\<lambda>r. sort_key_of r = k) data)"
proof (intro conjI allI)
  show "mset (sort_results data) = mset data"
    by (simp add: sort_results_def)
  show "sorted_wrt (\<lambda>a b. sort_key_of b \<le> sort_key_of a) (sort_results data)"
    by (rule sorted_sort_results)
  show "sorted_wrt (\<lambda>a b. rating b \<noteq> None \<longrightarrow> rating a \<noteq> None) (sort_results data)"
    by (rule sorted_wrt_mono_rel [OF _ sorted_sort_results]) (auto simp: sort_key_of_le)
  show "sorted_wrt (\<lambda>a b. rating a \<noteq> None \<and> rating b \<noteq> None \<longrightarrow>
        the (rating b) < the (rating a)
        \<or> the (rating b) = the (rating a) \<and> review_count b \<le> review_count a)
       (sort_results data)"
    by (rule sorted_wrt_mono_rel [OF _ sorted_sort_results])
      (auto simp: sort_key_of_le rating_or_0_Some)
  show "filter (\<lambda>r. sort_key_of r = k) (sort_results data) =
      filter (\<lambda>r. sort_key_of r = k) data" for k
    by (rule stable_sort_results)
qed

theorem sort_results_ranks_witness:
  "sort_results [ex_a, ex_b, ex_c, ex_d, ex_e] = [ex_c, ex_a, ex_d, ex_e, ex_b]
   \<and> mset (sort_results [ex_a, ex_b, ex_c, ex_d, ex_e]) = mset [ex_a, ex_b, ex_c, ex_d, ex_e]
   \<and> sort_key_of ex_a = sort_key_of ex_d
   \<and> filter (\<lambda>r. sort_key_of r = sort_key_of ex_a) (sort_results [ex_a, ex_b, ex_c, ex_d, ex_e])
       = filter (\<lambda>r. sort_key_of r = sort_key_of ex_a) [ex_a, ex_b, ex_c, ex_d, ex_e]"
proof -
  have "sort_results [ex_a, ex_b, ex_c, ex_d, ex_e] = [ex_c, ex_a, ex_d, ex_e, ex_b]"
    by (simp add: sort_results_def sort_key_of_def rating_or_0_def truthy_def
        ex_a_def ex_b_def ex_c_def ex_d_def ex_e_def Restaurant_def)
  moreover have "sort_key_of ex_a = sort_key_of ex_d"
    by (simp add: sort_key_of_def rating_or_0_def truthy_def ex_a_def ex_d_def Restaurant_def)
  moreover note ranks = sort_results_ranks [of "[ex_a, ex_b, ex_c, ex_d, ex_e]"]
  from ranks have
    "mset (sort_results [ex_a, ex_b, ex_c, ex_d, ex_e]) = mset [ex_a, ex_b, ex_c, ex_d, ex_e]"
    by (rule conjunct1)
  moreover from ranks have
    "filter (\<lambda>r. sort_key_of r = sort_key_of ex_a) (sort_results [ex_a, ex_b, ex_c, ex_d, ex_e])
       = filter (\<lambda>r. sort_key_of r = sort_key_of ex_a) [ex_a, ex_b, ex_c, ex_d, ex_e]"
    by blast
  ultimately show ?thesis by blast
qed

section \<open>Properties of the summary row\<close>

lemma length_as_sum: "sum_list (map (\<lambda>r. 1::int) xs) = int (length xs)"
  by (induction xs) auto

text \<open>Where no record has the rating 0, the summary is the mean of the rated records.\<close>

lemma avg_rating_no_zero:
  assumes "\<forall>r \<in> set data. rating r \<noteq> Some 0"
  shows "avg_rating data = mean_of_rated data"
proof -
  have "filter (\<lambda>r. truthy (rating r)) data = filter (\<lambda>r. rating r \<noteq> None) data"
    using assms by (intro filter_cong) (auto simp: truthy_def split: option.splits)
  then show ?thesis
    by (simp add: avg_rating_def mean_of_rated_def length_as_sum)
qed

lemma avg_rating_unrated: "\<forall>r \<in> set data. rating r = None \<Longrightarrow> avg_rating data = 0"
  by (simp add: avg_rating_def truthy_def filter_False)

text \<open>
  C8 (the code departs from the claim). The generator tests \<open>if r.rating\<close>, which is
  false for the rating 0.0 as well as for \<open>None\<close>. For two records rated 0.0 and 4.0
  the summary is \<open>4.0 / 1 = 4\<close>, where the mean over the records with a non-null rating
  is \<open>(0.0 + 4.0) / 2 = 2\<close>: the record rated 0.0 is left out of the denominator.
\<close>

theorem avg_rating_drops_zero_rating:
  "avg_rating [Restaurant\<lparr>rating := Some 0\<rparr>, Restaurant\<lparr>rating := Some 4\<rparr>] = 4
   \<and> mean_of_rated [Restaurant\<lparr>rating := Some 0\<rparr>, Restaurant\<lparr>rating := Some 4\<rparr>] = 2"
  by (simp add: avg_rating_def mean_of_rated_def truthy_def Restaurant_def)

section \<open>Properties of the record builder\<close>

lemma and_then_Inr: "and_then m k = Inr r \<longleftrightarrow> (\<exists>v. m = Inr v \<and> k v = Inr r)"
  by (cases m) (simp_all add: and_then_def)

lemma and_then_Inr_I: "and_then (Inr v) k = k v"
  by (simp add: and_then_def)

text \<open>A field step that does not raise yields the field's own text, parsed, or the default.\<close>

lemma field_step_Inr:
  "except caught dflt (read_el el g) = Inr v \<Longrightarrow> v = field_of dflt g el"
  by (auto simp: except_def read_el_def and_then_def field_of_def
      split: sum.splits if_splits)

lemma field_step_benign:
  "absent_or_text caught el \<Longrightarrow> except caught dflt (read_el el g) = Inr (field_of dflt g el)"
  by (auto simp: except_def read_el_def and_then_def field_of_def absent_or_text_def
      split: sum.splits)

lemma build_record_Inr:
  assumes "build_record py_float place_url pg = Inr r"
  shows "r = expected_record py_float place_url pg"
proof -
  have nav: "navigation pg = None"
    using assms by (cases "navigation pg") (simp_all add: build_record_def)
  from assms nav obtain nm rt rc cu ad ph wb where
    steps: "except TimeoutException ''N/A'' (read_el (name_el pg) strip) = Inr nm"
      "except NoSuchElementException None (read_el (rating_el pg) (parse_rating py_float)) = Inr rt"
      "except NoSuchElementException 0 (read_el (reviews_el pg) parse_review_count) = Inr rc"
      "except NoSuchElementException ''N/A'' (read_el (cuisine_el pg) strip) = Inr cu"
      "except NoSuchElementException ''N/A'' (read_el (addr_el pg) strip) = Inr ad"
      "except NoSuchElementException ''N/A'' (read_el (phone_el pg) strip) = Inr ph"
      "except NoSuchElementException ''N/A'' (read_el (web_el pg) strip) = Inr wb"
    and r: "r = Restaurant\<lparr>maps_url := place_url, name := nm, rating := rt,
                 review_count := rc, cuisine := cu, address := ad, phone := ph,
                 website := wb\<rparr>"
    unfolding build_record_def by (auto simp: and_then_Inr)
  show "r = expected_record py_float place_url pg"
    using steps [THEN field_step_Inr] r
    by (simp add: expected_record_def Restaurant_def)
qed

lemma build_record_benign:
  assumes "benign_page pg"
  shows "build_record py_float place_url pg = Inr (expected_record py_float place_url pg)"
  using assms
  by (simp add: benign_page_def build_record_def field_step_benign and_then_Inr_I
      expected_record_def Restaurant_def)

lemma build_record_nav_raises:
  "navigation pg = Some e \<Longrightarrow> build_record py_float place_url pg = Inl e"
  by (simp add: build_record_def)

lemma process_place_skip:
  "item_failure py_float place_url pg \<Longrightarrow>
     process_place py_float cards_bound place_url pg = Inr None"
  by (auto simp: item_failure_def process_place_def)

lemma process_place_ok:
  "cards_bound \<Longrightarrow> build_record py_float place_url pg = Inr r \<Longrightarrow>
     process_place py_float cards_bound place_url pg = Inr (Some r)"
  by (simp add: process_place_def)

lemma process_place_Some:
  "process_place py_float cards_bound place_url pg = Inr (Some r) \<Longrightarrow>
     build_record py_float place_url pg = Inr r"
  by (auto simp: process_place_def split: sum.splits if_splits)

text \<open>The example pages, evaluated.\<close>

lemma bare_page_record:
  "build_record py_float u bare_page = Inr (Restaurant\<lparr>maps_url := u\<rparr>)"
  by (simp add: build_record_def bare_page_def except_def read_el_def and_then_def
      Restaurant_def)

lemma full_page_record:
  "build_record ex_float u full_page = Inr
     \<lparr>name = ''Joes Pizza'', address = ''7 Carmine St'', phone = ''N/A'',
      rating = Some (9 / 2), review_count = 1234, website = ''joespizza.example'',
      cuisine = ''Pizza'', maps_url = u\<rparr>"
  by (simp add: build_record_def full_page_def except_def read_el_def
      and_then_def Restaurant_def strip_def is_space_def parse_rating_def replace_comma_def
      ex_float_def parse_review_count_def is_digit_def py_int_def digit_val_def)

lemma nav_timeout_record: "build_record py_float u nav_timeout_page = Inl TimeoutException"
  by (simp add: build_record_def nav_timeout_page_def)

lemma strip_NA: "strip ''N/A'' = ''N/A''"
  by (simp add: strip_def is_space_def)

text \<open>A name wait that times out is absorbed: the body goes on as with the heading "N/A".\<close>

lemma build_record_name_timeout:
  assumes "name_el pg = Inl TimeoutException"
  shows "build_record py_float place_url pg =
           build_record py_float place_url (pg\<lparr>name_el := Inr (Inr ''N/A'')\<rparr>)"
proof -
  have "except TimeoutException ''N/A'' (read_el (name_el pg) strip) = Inr ''N/A''"
    using assms by (simp add: except_def read_el_def and_then_def)
  moreover have "except TimeoutException ''N/A'' (read_el (Inr (Inr ''N/A'')) strip) = Inr ''N/A''"
    by (simp add: except_def read_el_def and_then_def strip_NA)
  ultimately show ?thesis
    by (cases "navigation pg") (simp_all add: build_record_def)
qed

lemma process_place_None:
  "process_place py_float cards_bound place_url pg = Inr None \<longleftrightarrow>
     item_failure py_float place_url pg"
  by (auto simp: process_place_def item_failure_def split: sum.splits)

lemma nameless_page_record:
  "build_record ex_float u nameless_page = Inr
     \<lparr>name = ''N/A'', address = ''7 Carmine St'', phone = ''N/A'',
      rating = Some (9 / 2), review_count = 1234, website = ''joespizza.example'',
      cuisine = ''Pizza'', maps_url = u\<rparr>"
  by (simp add: build_record_def nameless_page_def full_page_def except_def read_el_def
      and_then_def Restaurant_def strip_def is_space_def parse_rating_def replace_comma_def
      ex_float_def parse_review_count_def is_digit_def py_int_def digit_val_def)

lemma stale_rating_record:
  "build_record py_float u stale_rating_page = Inl StaleElementReferenceException"
  by (simp add: build_record_def stale_rating_page_def nameless_page_def full_page_def
      except_def read_el_def and_then_def)

text \<open>
  C3 as stated fails: on a page whose name heading never appears within the wait
  (\<open>wait.until\<close> raises \<open>TimeoutException\<close>) the inner handler sets the name to
  \<open>"N/A"\<close>, the remaining fields are tried, and the record is appended.
\<close>

theorem name_timeout_counterexample:
  "name_el bare_page = Inl TimeoutException
   \<and> process_place ex_float True ''u'' bare_page = Inr (Some (Restaurant\<lparr>maps_url := ''u''\<rparr>))
   \<and> extract_all ex_float True bare_pages [''u''] [] = Inr [Restaurant\<lparr>maps_url := ''u''\<rparr>]"
  by (simp add: process_place_def bare_page_record bare_pages_def) (simp add: bare_page_def)

text \<open>
  C3, amended. When the name heading does not appear within the bounded wait, the name
  is defaulted and the candidate is treated exactly as if the heading read \<open>"N/A"\<close>:
  it is not skipped on that account, and whenever its record is appended the name is
  \<open>"N/A"\<close>. If moreover the page loads and every other field is absent or readable, the
  record is appended, each other field being its own element's parsed text or its
  default. A candidate is skipped exactly when a \<open>TimeoutException\<close> or a
  \<open>StaleElementReferenceException\<close> leaves the body of the outer \<open>try\<close> (from the
  navigation, or from a field outside its own handler, also after a name timeout); the
  loop then goes on with the next candidate and unchanged results. A navigation that
  times out is such a case.
\<close>

theorem name_timeout_defaults:
  "(name_el pg = Inl TimeoutException \<longrightarrow>
      process_place py_float cards_bound place_url pg =
        process_place py_float cards_bound place_url (pg\<lparr>name_el := Inr (Inr ''N/A'')\<rparr>)
      \<and> (\<forall>r. process_place py_float cards_bound place_url pg = Inr (Some r) \<longrightarrow>
             name r = ''N/A''))
   \<and> (cards_bound \<and> benign_page pg \<and> name_el pg = Inl TimeoutException \<longrightarrow>
        process_place py_float cards_bound place_url pg =
          Inr (Some (expected_record py_float place_url pg))
        \<and> name (expected_record py_float place_url pg) = ''N/A'')
   \<and> (process_place py_float cards_bound place_url (pages place_url) = Inr None \<longleftrightarrow>
        item_failure py_float place_url (pages place_url))
   \<and> (item_failure py_float place_url (pages place_url) \<longrightarrow>
        extract_all py_float cards_bound pages (place_url # rest) results =
          extract_all py_float cards_bound pages rest results)
   \<and> (navigation (pages place_url) = Some TimeoutException \<longrightarrow>
        item_failure py_float place_url (pages place_url))"
proof (intro conjI impI allI)
  assume a: "name_el pg = Inl TimeoutException"
  then show "process_place py_float cards_bound place_url pg =
      process_place py_float cards_bound place_url (pg\<lparr>name_el := Inr (Inr ''N/A'')\<rparr>)"
    by (simp add: process_place_def build_record_name_timeout)
  fix r assume "process_place py_float cards_bound place_url pg = Inr (Some r)"
  then have "r = expected_record py_float place_url pg"
    by (intro build_record_Inr process_place_Some)
  with a show "name r = ''N/A''"
    by (simp add: expected_record_def field_of_def)
next
  assume a: "cards_bound \<and> benign_page pg \<and> name_el pg = Inl TimeoutException"
  then show "process_place py_float cards_bound place_url pg =
      Inr (Some (expected_record py_float place_url pg))"
    by (simp add: process_place_ok build_record_benign)
  from a show "name (expected_record py_float place_url pg) = ''N/A''"
    by (simp add: expected_record_def field_of_def)
next
  show "process_place py_float cards_bound place_url (pages place_url) = Inr None \<longleftrightarrow>
      item_failure py_float place_url (pages place_url)"
    by (rule process_place_None)
next
  assume "item_failure py_float place_url (pages place_url)"
  then have "process_place py_float cards_bound place_url (pages place_url) = Inr None"
    by (rule process_place_skip)
  then show "extract_all py_float cards_bound pages (place_url # rest) results =
      extract_all py_float cards_bound pages rest results"
    by simp
next
  assume "navigation (pages place_url) = Some TimeoutException"
  then show "item_failure py_float place_url (pages place_url)"
    by (simp add: item_failure_def build_record_nav_raises)
qed

theorem name_timeout_defaults_witness:
  "name_el nameless_page = Inl TimeoutException \<and> benign_page nameless_page
   \<and> process_place ex_float True ''u'' nameless_page =
       process_place ex_float True ''u'' (nameless_page\<lparr>name_el := Inr (Inr ''N/A'')\<rparr>)
   \<and> process_place ex_float True ''u'' nameless_page =
       Inr (Some (expected_record ex_float ''u'' nameless_page))
   \<and> expected_record ex_float ''u'' nameless_page =
       \<lparr>name = ''N/A'', address = ''7 Carmine St'', phone = ''N/A'',
        rating = Some (9 / 2), review_count = 1234, website = ''joespizza.example'',
        cuisine = ''Pizza'', maps_url = ''u''\<rparr>
   \<and> name_el stale_rating_page = Inl TimeoutException
   \<and> item_failure ex_float ''u'' stale_rating_page
   \<and> process_place ex_float True ''u'' stale_rating_page = Inr None
   \<and> navigation (ten_pages ''u4'') = Some TimeoutException
   \<and> item_failure ex_float ''u4'' (ten_pages ''u4'')
   \<and> process_place ex_float True ''u4'' (ten_pages ''u4'') = Inr None
   \<and> extract_all ex_float True ten_pages [''u4'', ''u5''] [] =
       extract_all ex_float True ten_pages [''u5''] []"
proof -
  have n: "name_el nameless_page = Inl TimeoutException"
    and b: "benign_page nameless_page"
    by (simp_all add: benign_page_def nameless_page_def full_page_def absent_or_text_def)
  have sn: "name_el stale_rating_page = Inl TimeoutException"
    by (simp add: stale_rating_page_def nameless_page_def)
  have sf: "item_failure ex_float ''u'' stale_rating_page"
    by (simp add: item_failure_def stale_rating_record)
  have t: "navigation (ten_pages ''u4'') = Some TimeoutException"
    by (simp add: ten_pages_def nav_timeout_page_def)
  note th1 = name_timeout_defaults [of nameless_page ex_float True "''u''" ten_pages "[]" "[]"]
  note th2 = name_timeout_defaults [of nameless_page ex_float True "''u4''" ten_pages
      "[''u5'']" "[]"]
  note th3 = name_timeout_defaults [of nameless_page ex_float True "''u''"
      "\<lambda>u. stale_rating_page" "[]" "[]"]
  from th1 n have same: "process_place ex_float True ''u'' nameless_page =
       process_place ex_float True ''u'' (nameless_page\<lparr>name_el := Inr (Inr ''N/A'')\<rparr>)"
    by blast
  from th1 n b have app: "process_place ex_float True ''u'' nameless_page =
       Inr (Some (expected_record ex_float ''u'' nameless_page))"
    by blast
  then have "build_record ex_float ''u'' nameless_page =
      Inr (expected_record ex_float ''u'' nameless_page)"
    by (rule process_place_Some)
  then have rec: "expected_record ex_float ''u'' nameless_page =
       \<lparr>name = ''N/A'', address = ''7 Carmine St'', phone = ''N/A'',
        rating = Some (9 / 2), review_count = 1234, website = ''joespizza.example'',
        cuisine = ''Pizza'', maps_url = ''u''\<rparr>"
    by (simp add: nameless_page_record)
  from th3 sf have skip: "process_place ex_float True ''u'' stale_rating_page = Inr None"
    by blast
  from th2 t have f: "item_failure ex_float ''u4'' (ten_pages ''u4'')"
    by blast
  with th2 have "process_place ex_float True ''u4'' (ten_pages ''u4'') = Inr None
     \<and> extract_all ex_float True ten_pages [''u4'', ''u5''] [] =
       extract_all ex_float True ten_pages [''u5''] []"
    by blast
  with n b same app rec sn sf skip t f show ?thesis by blast
qed

text \<open>
  C6. Every record that is appended has, in every declared field, the parsed text of
  that field's own element when the element is there and readable, and the declared
  default otherwise. On a page that loads, whichever fields are absent and whatever
  their texts, the record is built and appended: no field stands in the way of another
  field or of the record.
\<close>

theorem record_fields_independent:
  "(process_place py_float cards_bound place_url pg = Inr (Some r) \<longrightarrow>
      r = expected_record py_float place_url pg)
   \<and> (cards_bound \<and> benign_page pg \<longrightarrow>
        process_place py_float cards_bound place_url pg =
          Inr (Some (expected_record py_float place_url pg)))"
proof (intro conjI impI)
  assume "process_place py_float cards_bound place_url pg = Inr (Some r)"
  then have "build_record py_float place_url pg = Inr r"
    by (rule process_place_Some)
  then show "r = expected_record py_float place_url pg"
    by (rule build_record_Inr)
next
  assume "cards_bound \<and> benign_page pg"
  then show "process_place py_float cards_bound place_url pg =
      Inr (Some (expected_record py_float place_url pg))"
    by (simp add: process_place_ok build_record_benign)
qed

theorem record_fields_independent_witness:
  "benign_page full_page
   \<and> process_place ex_float True ''u'' full_page =
       Inr (Some (expected_record ex_float ''u'' full_page))
   \<and> expected_record ex_float ''u'' full_page =
       \<lparr>name = ''Joes Pizza'', address = ''7 Carmine St'', phone = ''N/A'',
        rating = Some (9 / 2), review_count = 1234, website = ''joespizza.example'',
        cuisine = ''Pizza'', maps_url = ''u''\<rparr>"
proof -
  have b: "benign_page full_page"
    by (simp add: benign_page_def full_page_def absent_or_text_def)
  note th = record_fields_independent [of ex_float True "''u''" full_page
      "expected_record ex_float ''u'' full_page"]
  from th b have p: "process_place ex_float True ''u'' full_page =
       Inr (Some (expected_record ex_float ''u'' full_page))"
    by blast
  have "build_record ex_float ''u'' full_page = Inr (expected_record ex_float ''u'' full_page)"
    using b by (rule build_record_benign)
  then have "expected_record ex_float ''u'' full_page =
       \<lparr>name = ''Joes Pizza'', address = ''7 Carmine St'', phone = ''N/A'',
        rating = Some (9 / 2), review_count = 1234, website = ''joespizza.example'',
        cuisine = ''Pizza'', maps_url = ''u''\<rparr>"
    by (simp add: full_page_record)
  with b p show ?thesis by blast
qed

section \<open>Properties of the detail crawler\<close>

lemma extract_all_isolated:
  assumes "cards_bound"
    and "\<forall>u \<in> set place_urls. item_ok py_float u (pages u) \<or> item_failure py_float u (pages u)"
  shows "extract_all py_float cards_bound pages place_urls results =
           Inr (results @ records_of py_float pages place_urls)"
  using assms(2)
proof (induction place_urls arbitrary: results)
  case Nil
  show ?case by (simp add: records_of_def)
next
  case (Cons u us)
  from Cons.prems have rest:
    "\<forall>u \<in> set us. item_ok py_float u (pages u) \<or> item_failure py_float u (pages u)"
    by simp
  from Cons.prems have "item_ok py_float u (pages u) \<or> item_failure py_float u (pages u)"
    by simp
  then show ?case
  proof
    assume "item_ok py_float u (pages u)"
    then obtain r where r: "build_record py_float u (pages u) = Inr r"
      by (auto simp: item_ok_def split: sum.splits)
    then have "extract_all py_float cards_bound pages (u # us) results =
        extract_all py_float cards_bound pages us (results @ [r])"
      using assms(1) by (simp add: process_place_ok)
    also have "\<dots> = Inr ((results @ [r]) @ records_of py_float pages us)"
      by (rule Cons.IH [OF rest])
    finally show ?thesis using r by (simp add: records_of_def)
  next
    assume f: "item_failure py_float u (pages u)"
    then have "extract_all py_float cards_bound pages (u # us) results =
        extract_all py_float cards_bound pages us results"
      by (simp add: process_place_skip)
    also have "\<dots> = Inr (results @ records_of py_float pages us)"
      by (rule Cons.IH [OF rest])
    finally show ?thesis using f by (auto simp: records_of_def item_failure_def)
  qed
qed

lemma length_records_of:
  assumes "\<forall>u \<in> set place_urls. item_ok py_float u (pages u) \<or> item_failure py_float u (pages u)"
  shows "length (records_of py_float pages place_urls) +
      length (filter (\<lambda>u. item_failure py_float u (pages u)) place_urls) = length place_urls"
  using assms
proof (induction place_urls)
  case Nil
  show ?case by (simp add: records_of_def)
next
  case (Cons u us)
  then have IH: "length (records_of py_float pages us) +
      length (filter (\<lambda>u. item_failure py_float u (pages u)) us) = length us"
    by simp
  have split: "records_of py_float pages (u # us) =
      (case build_record py_float u (pages u) of Inr r \<Rightarrow> [r] | Inl e \<Rightarrow> []) @
        records_of py_float pages us"
    by (simp add: records_of_def)
  from Cons.prems have "item_ok py_float u (pages u) \<or> item_failure py_float u (pages u)"
    by simp
  then show ?case
    using IH unfolding split
    by (auto simp: item_ok_def item_failure_def split: sum.splits)
qed

text \<open>
  C7. When every candidate either builds its record or fails with one of the two
  per-item failures, the run is not aborted: the catalog consists of the records of the
  candidates that did not fail, each built from its own page alone, in candidate order,
  and its length is the number of candidates less the number of skipped ones.
\<close>

theorem extract_all_partial_failure:
  assumes "cards_bound"
    and "\<forall>u \<in> set place_urls. item_ok py_float u (pages u) \<or> item_failure py_float u (pages u)"
  shows "extract_all py_float cards_bound pages place_urls [] =
           Inr (records_of py_float pages place_urls)
       \<and> length (records_of py_float pages place_urls) +
           length (filter (\<lambda>u. item_failure py_float u (pages u)) place_urls) =
         length place_urls"
  using extract_all_isolated [OF assms, of "[]"] length_records_of [OF assms(2)]
  by simp

theorem extract_all_partial_failure_witness:
  "item_failure ex_float ''u4'' (ten_pages ''u4'')
   \<and> extract_all ex_float True ten_pages ten_urls [] = Inr (records_of ex_float ten_pages ten_urls)
   \<and> map maps_url (records_of ex_float ten_pages ten_urls) =
       [''u1'', ''u2'', ''u3'', ''u5'', ''u6'', ''u7'', ''u8'', ''u9'', ''u10'']
   \<and> map name (records_of ex_float ten_pages ten_urls) = replicate 9 ''Joes Pizza''
   \<and> length (records_of ex_float ten_pages ten_urls) = 9
   \<and> length (filter (\<lambda>u. item_failure ex_float u (ten_pages u)) ten_urls) = 1"
proof -
  have ok: "\<forall>u \<in> set ten_urls.
      item_ok ex_float u (ten_pages u) \<or> item_failure ex_float u (ten_pages u)"
    by (simp add: ten_urls_def ten_pages_def item_ok_def item_failure_def
        full_page_record nav_timeout_record)
  have recs: "map maps_url (records_of ex_float ten_pages ten_urls) =
       [''u1'', ''u2'', ''u3'', ''u5'', ''u6'', ''u7'', ''u8'', ''u9'', ''u10'']"
    "map name (records_of ex_float ten_pages ten_urls) = replicate 9 ''Joes Pizza''"
    by (simp_all add: records_of_def ten_urls_def ten_pages_def full_page_record
        nav_timeout_record numeral_eq_Suc)
  have len: "length (records_of ex_float ten_pages ten_urls) = 9"
    using recs(1) [THEN arg_cong, of length] by simp
  have f: "item_failure ex_float ''u4'' (ten_pages ''u4'')"
    by (simp add: ten_pages_def item_failure_def nav_timeout_record)
  from extract_all_partial_failure [of True ten_urls ex_float ten_pages] ok
  have "extract_all ex_float True ten_pages ten_urls [] =
           Inr (records_of ex_float ten_pages ten_urls)
       \<and> length (records_of ex_float ten_pages ten_urls) +
           length (filter (\<lambda>u. item_failure ex_float u (ten_pages u)) ten_urls) =
         length ten_urls"
    by simp
  moreover have "length ten_urls = 10" by (simp add: ten_urls_def)
  ultimately show ?thesis using recs len f by simp
qed

section \<open>Properties of the entry point\<close>

lemma scrape_setup_failure:
  "\<not> search_box_found ses \<or> \<not> panel_found ses \<Longrightarrow>
     scrape_google_maps py_float max_results ses = Some (Inr [])"
  by (auto simp: scrape_google_maps_def)

text \<open>
  C10. When the scrape returns an empty list, as it does when no search box or no
  results panel is found, \<open>main\<close> returns with the files as they were: nothing is sorted
  and no report is written. When the scrape returns records, the report of the sorted
  records is written to \<open>OUTPUT_FILE\<close>.
\<close>

theorem main_empty_writes_nothing:
  "(scrape_google_maps py_float MAX_RESULTS ses = Some (Inr []) \<longrightarrow>
      main py_float ses files = Some (Inr files))
   \<and> (\<not> search_box_found ses \<or> \<not> panel_found ses \<longrightarrow>
        scrape_google_maps py_float MAX_RESULTS ses = Some (Inr []))
   \<and> (scrape_google_maps py_float MAX_RESULTS ses = Some (Inr raw_data) \<and> raw_data \<noteq> [] \<longrightarrow>
        main py_float ses files =
          Some (Inr (files(OUTPUT_FILE \<mapsto> export_to_excel (sort_results raw_data)))))"
  by (auto simp: main_def scrape_setup_failure)

lemma two_place_scrape:
  "scrape_google_maps ex_float MAX_RESULTS two_place_session =
     Some (Inr (records_of ex_float ten_pages [''u1'', ''u2'']))"
proof -
  have loop: "scroll_loop 60 [] (feed_of [] 2) 0 0 0 =
      Some \<lparr>iterations = 6, final_count = 2, final_stall = 5\<rparr>"
    by (simp add: scroll_loop.simps feed_of_def)
  have cands: "collect_candidates 60 [Href (Some ''u1''), Href (Some ''u4''), Href (Some ''u2'')] =
      [''u1'', ''u4'', ''u2'']"
    by (simp add: collect_candidates_def slice_to_def)
  have "extract_all ex_float True ten_pages [''u1'', ''u4'', ''u2''] [] =
      Inr (records_of ex_float ten_pages [''u1'', ''u2''])"
    by (simp add: process_place_def ten_pages_def full_page_record nav_timeout_record
        records_of_def)
  then show ?thesis
    by (simp add: scrape_google_maps_def two_place_session_def MAX_RESULTS_def loop cands)
qed

theorem main_empty_writes_nothing_witness:
  "\<not> search_box_found no_box_session
   \<and> scrape_google_maps ex_float MAX_RESULTS no_box_session = Some (Inr [])
   \<and> main ex_float no_box_session Map.empty = Some (Inr Map.empty)
   \<and> scrape_google_maps ex_float MAX_RESULTS two_place_session =
       Some (Inr (records_of ex_float ten_pages [''u1'', ''u2'']))
   \<and> map maps_url (records_of ex_float ten_pages [''u1'', ''u2'']) = [''u1'', ''u2'']
   \<and> main ex_float two_place_session Map.empty =
       Some (Inr [OUTPUT_FILE \<mapsto>
         export_to_excel (sort_results (records_of ex_float ten_pages [''u1'', ''u2'']))])"
proof -
  have nb: "\<not> search_box_found no_box_session"
    by (simp add: no_box_session_def)
  have recs: "map maps_url (records_of ex_float ten_pages [''u1'', ''u2'']) = [''u1'', ''u2'']"
    by (simp add: records_of_def ten_pages_def full_page_record)
  then have ne: "records_of ex_float ten_pages [''u1'', ''u2''] \<noteq> []"
    by auto
  note th1 = main_empty_writes_nothing [of ex_float no_box_session Map.empty "[]"]
  note th2 = main_empty_writes_nothing [of ex_float two_place_session Map.empty
      "records_of ex_float ten_pages [''u1'', ''u2'']"]
  from th1 nb have e: "scrape_google_maps ex_float MAX_RESULTS no_box_session = Some (Inr [])"
    by blast
  with th1 have "main ex_float no_box_session Map.empty = Some (Inr Map.empty)"
    by blast
  moreover from th2 two_place_scrape ne have "main ex_float two_place_session Map.empty =
       Some (Inr [OUTPUT_FILE \<mapsto>
         export_to_excel (sort_results (records_of ex_float ten_pages [''u1'', ''u2'']))])"
    by blast
  ultimately show ?thesis using nb e two_place_scrape recs by blast
qed

end
